theory Spec2Isabelle
  imports Main
begin

section \<open>Fund data verification: the embedding of \<open>application/main.py\<close>\<close>

text \<open>
  The program reads a spreadsheet of funds, asks two web services about every row and
  writes four derived columns. This theory embeds class \<open>FundDataVerifier\<close>: the
  pure helpers \<open>normalize_cnpj\<close> and \<open>format_date\<close>, the two clients
  \<open>query_fundsnet\<close> and \<open>query_mziq\<close>, and the loop of \<open>process_data\<close>.
  Printing is left out: no value of the program depends on it. Where the two lines of
  pandas the unpinned import admits differ (the dtype of a column created from a string),
  the dtype is a parameter, and the statements hold for both unless they say otherwise.
\<close>

subsection \<open>Python values\<close>

text \<open>
  The scalar values that reach the code: a spreadsheet cell as pandas hands it over and a
  member of a JSON object. \<open>PNaN\<close> is the float \<open>nan\<close> that pandas puts in a blank cell;
  other floats are not modelled. A Python string is a \<open>string\<close> here; the three
  characters the program looks for are ASCII, so working on UTF-8 bytes removes the same
  characters as working on code points.
\<close>

datatype pyval = PNone | PNaN | PBool bool | PInt int | PStr string

text \<open>Truthiness, as \<open>if x\<close> and \<open>not x\<close> read it. \<open>nan\<close> is a non-zero float: true.\<close>

fun truthy :: "pyval \<Rightarrow> bool" where
  "truthy PNone = False"
| "truthy PNaN = True"
| "truthy (PBool b) = b"
| "truthy (PInt n) = (n \<noteq> 0)"
| "truthy (PStr s) = (s \<noteq> [])"

text \<open>\<open>pd.isna\<close> on a scalar.\<close>

fun isna :: "pyval \<Rightarrow> bool" where
  "isna PNone = True"
| "isna PNaN = True"
| "isna _ = False"

text \<open>Python's \<open>==\<close> on scalars: \<open>nan\<close> equals nothing, \<open>True == 1\<close>, and a string equals
  only the same string.\<close>

fun py_eq :: "pyval \<Rightarrow> pyval \<Rightarrow> bool" where
  "py_eq PNone PNone = True"
| "py_eq (PBool a) (PBool b) = (a = b)"
| "py_eq (PBool a) (PInt n) = ((if a then 1 else 0) = n)"
| "py_eq (PInt n) (PBool a) = (n = (if a then 1 else 0))"
| "py_eq (PInt m) (PInt n) = (m = n)"
| "py_eq (PStr s) (PStr t) = (s = t)"
| "py_eq _ _ = False"

text \<open>\<open>str(x)\<close>: the decimal digits of an integer, most significant first.\<close>

fun str_nat :: "nat \<Rightarrow> string" where
  "str_nat n =
     (if n < 10 then [char_of (48 + n)]
      else str_nat (n div 10) @ [char_of (48 + n mod 10)])"

fun py_str :: "pyval \<Rightarrow> string" where
  "py_str PNone = ''None''"
| "py_str PNaN = ''nan''"
| "py_str (PBool b) = (if b then ''True'' else ''False'')"
| "py_str (PInt n) = (if n < 0 then CHR ''-'' # str_nat (nat (- n)) else str_nat (nat n))"
| "py_str (PStr s) = s"

text \<open>A dict with scalar values (a flat JSON object), in insertion order, and
  \<open>d.get(k)\<close>, which gives \<open>None\<close> for a missing key.\<close>

type_synonym pydict = "(string \<times> pyval) list"

definition dict_get :: "pydict \<Rightarrow> string \<Rightarrow> pyval" where
  "dict_get d k = (case map_of d k of None \<Rightarrow> PNone | Some v \<Rightarrow> v)"

subsection \<open>\<open>normalize_cnpj\<close> and \<open>format_date\<close>\<close>

text \<open>
  \<open>re.sub(r'[./-]', '', s)\<close>: the pattern is a character class, so every match is one
  character of the class, and each is replaced by the replacement text.
\<close>

fun re_sub_class :: "string \<Rightarrow> string \<Rightarrow> string \<Rightarrow> string" where
  "re_sub_class cls repl [] = []"
| "re_sub_class cls repl (c # cs) =
     (if c \<in> set cls then repl else [c]) @ re_sub_class cls repl cs"

fun normalize_cnpj :: "pyval \<Rightarrow> string" where
  "normalize_cnpj cnpj =
     (if \<not> truthy cnpj \<or> isna cnpj then ''''
      else re_sub_class ''./-'' '''' (py_str cnpj))"

text \<open>\<open>s.split("T")[0]\<close>: the text before the first \<open>T\<close>.\<close>

definition split_T_first :: "string \<Rightarrow> string" where
  "split_T_first s = takeWhile (\<lambda>c. c \<noteq> CHR ''T'') s"

text \<open>
  \<open>format_date\<close>. On a value that is not a string, \<open>"T" in date_str\<close> raises TypeError and
  the handler returns the value as it came. No line of the class calls this method.
\<close>

fun format_date :: "pyval \<Rightarrow> pyval" where
  "format_date date_str =
     (if \<not> truthy date_str \<or> isna date_str then PStr ''''
      else case date_str of
             PStr s \<Rightarrow> (if CHR ''T'' \<in> set s then PStr (split_T_first s) else PStr s)
           | _ \<Rightarrow> date_str)"

subsection \<open>The two web services\<close>

text \<open>
  What one \<open>requests.get\<close> does: it raises (a timeout, a refused connection, a URL
  without scheme when the environment variable is missing), or it answers with a status
  code and a body. The body is \<open>None\<close> when \<open>response.json()\<close>, or a later access to
  its value, raises; otherwise it is the parsed JSON as far as the code reads it.

  A service is asked at most once per row, so its answers are a function of the row
  index and the value sent: nothing is assumed about two rows getting the same answer.

  The registry answers with an object whose member \<open>data\<close> is an array of flat objects;
  the identity service answers with a flat object.
\<close>

datatype 'b http_result = Raises | Response nat "'b option"

record services =
  fundsnet_get :: "nat \<Rightarrow> pyval \<Rightarrow> (string \<times> pydict list) list http_result"
  mziq_get :: "nat \<Rightarrow> pyval \<Rightarrow> pydict http_result"

text \<open>
  \<open>query_fundsnet\<close>. A Python tuple is the list of its components. The handler of
  line 63 returns a pair, the other exits a triple.
\<close>

fun query_fundsnet :: "services \<Rightarrow> nat \<Rightarrow> pyval \<Rightarrow> pyval list" where
  "query_fundsnet sv idx cnpj =
     (if \<not> truthy cnpj \<or> isna cnpj then [PNone, PNone, PNone]
      else case fundsnet_get sv idx cnpj of
             Raises \<Rightarrow> [PNone, PNone]
           | Response status_code body \<Rightarrow>
               if status_code = 200 then
                 (case body of
                    None \<Rightarrow> [PNone, PNone]
                  | Some json \<Rightarrow>
                      (let data = (case map_of json ''data'' of None \<Rightarrow> [] | Some d \<Rightarrow> d)
                       in if data \<noteq> [] \<and> 0 < length data then
                            (let fund_info = hd data
                             in [dict_get fund_info ''descricaoFundo'',
                                 dict_get fund_info ''dataEntrega'',
                                 dict_get fund_info ''id''])
                          else [PNone, PNone, PNone]))
               else [PNone, PNone, PNone])"

fun query_mziq :: "services \<Rightarrow> nat \<Rightarrow> pyval \<Rightarrow> pyval" where
  "query_mziq sv idx fund_name =
     (if \<not> truthy fund_name \<or> isna fund_name then PNone
      else case mziq_get sv idx fund_name of
             Raises \<Rightarrow> PNone
           | Response status_code body \<Rightarrow>
               if status_code = 200 then
                 (case body of None \<Rightarrow> PNone | Some data \<Rightarrow> dict_get data ''id'')
               else PNone)"

subsection \<open>The table and \<open>process_data\<close>\<close>

text \<open>
  A row of the data frame is the list of its cells by column name, in column order; the
  table is the list of its rows. \<open>set_cell\<close> is an assignment to a cell: the value of
  an existing column is replaced in place, a new column is added at the end.
  \<open>row.get("CNPJ")\<close> is \<open>dict_get\<close>: \<open>None\<close> when the sheet has no such column.
\<close>

type_synonym row = "(string \<times> pyval) list"
type_synonym table = "row list"

fun set_cell :: "string \<Rightarrow> pyval \<Rightarrow> row \<Rightarrow> row" where
  "set_cell col v [] = [(col, v)]"
| "set_cell col v (p # ps) = (if fst p = col then (col, v) # ps else p # set_cell col v ps)"

text \<open>\<open>self.data[col] = v\<close>: the column gets the value in every row.\<close>

definition set_column :: "string \<Rightarrow> pyval \<Rightarrow> table \<Rightarrow> table" where
  "set_column col v tbl = map (set_cell col v) tbl"

text \<open>Lines 101 to 104: the four derived columns with their defaults.\<close>

definition add_columns :: "table \<Rightarrow> table" where
  "add_columns tbl =
     set_column ''idRedis'' (PStr '''')
       (set_column ''externalId'' (PStr '''')
         (set_column ''dataUltimoArquivamento'' (PStr '''')
           (set_column ''validado'' (PBool False) tbl)))"

text \<open>
  The exceptions of the loop body: unpacking a tuple into three names raises ValueError
  unless it has three components; an assignment to a cell raises TypeError when the
  column's dtype refuses the value.
\<close>

datatype py_error = ValueError | TypeError

fun unpack3 :: "pyval list \<Rightarrow> py_error + (pyval \<times> pyval \<times> pyval)" where
  "unpack3 [a, b, c] = Inr (a, b, c)"
| "unpack3 _ = Inl ValueError"

text \<open>
  The dtype pandas gives to the three columns that lines 102 to 104 create from the
  value \<open>""\<close>. The source imports pandas without a version, and the two lines of pandas
  differ here: before pandas 3 the columns are \<open>object\<close> columns, which hold any value as
  it is; from pandas 3 on they are \<open>str\<close> columns, which hold a string as it is, hold a
  missing value (\<open>None\<close>, \<open>nan\<close>) as \<open>nan\<close>, and refuse every other value with
  TypeError. The dtype is a parameter of the loop, so a statement about every dtype
  holds for both.
\<close>

datatype dtype = Object_dtype | Str_dtype

fun store_value :: "dtype \<Rightarrow> pyval \<Rightarrow> py_error + pyval" where
  "store_value Object_dtype v = Inr v"
| "store_value Str_dtype (PStr s) = Inr (PStr s)"
| "store_value Str_dtype PNone = Inr PNaN"
| "store_value Str_dtype PNaN = Inr PNaN"
| "store_value Str_dtype (PBool b) = Inl TypeError"
| "store_value Str_dtype (PInt n) = Inl TypeError"

text \<open>
  \<open>self.data.at[idx, col] = v\<close>, for a row that exists and one of the three columns of
  lines 102 to 104: the table with the cell written, or the exception and no change.
\<close>

definition at_set :: "dtype \<Rightarrow> table \<Rightarrow> nat \<Rightarrow> string \<Rightarrow> pyval \<Rightarrow> py_error + table" where
  "at_set dt tbl idx col v =
     (case store_value dt v of
        Inl e \<Rightarrow> Inl e
      | Inr v' \<Rightarrow> Inr (tbl[idx := set_cell col v' (tbl ! idx)]))"

text \<open>
  The assignment of line 126 to the column \<open>validado\<close>, which line 101 creates from
  \<open>False\<close>: a \<open>bool\<close> column under every pandas. The value written is a Python \<open>bool\<close>,
  which the column holds as it is.
\<close>

definition at_set_bool :: "table \<Rightarrow> nat \<Rightarrow> string \<Rightarrow> bool \<Rightarrow> table" where
  "at_set_bool tbl idx col b = tbl[idx := set_cell col (PBool b) (tbl ! idx)]"

text \<open>
  The body of the \<open>try\<close> of lines 110 to 126 for row \<open>idx\<close>, on the table as it stands:
  the exception that ended it, if any, and the table as the body left it. An assignment
  that raises ends the body with the earlier assignments of the row done.
\<close>

definition try_row ::
  "dtype \<Rightarrow> services \<Rightarrow> table \<Rightarrow> nat \<Rightarrow> pyval \<Rightarrow> py_error option \<times> table" where
  "try_row dt sv tbl idx cnpj =
     (case unpack3 (query_fundsnet sv idx cnpj) of
        Inl e \<Rightarrow> (Some e, tbl)
      | Inr (fund_name, last_delivery_date, external_id) \<Rightarrow>
          if truthy fund_name then
            (let fund_id = query_mziq sv idx fund_name
             in case at_set dt tbl idx ''dataUltimoArquivamento'' last_delivery_date of
                  Inl e \<Rightarrow> (Some e, tbl)
                | Inr d1 \<Rightarrow>
                    (case at_set dt d1 idx ''idRedis''
                            (if truthy fund_id then fund_id else PStr '''') of
                       Inl e \<Rightarrow> (Some e, d1)
                     | Inr d2 \<Rightarrow>
                         (case at_set dt d2 idx ''externalId''
                                 (if truthy external_id then external_id else PStr '''') of
                            Inl e \<Rightarrow> (Some e, d2)
                          | Inr d3 \<Rightarrow>
                              (let normalized_cnpj = normalize_cnpj cnpj
                               in (None,
                                   at_set_bool d3 idx ''validado''
                                     (if truthy fund_id
                                      then py_eq fund_id (PStr normalized_cnpj)
                                      else False))))))
          else (None, tbl))"

text \<open>
  The loop of line 106. \<open>iterrows\<close> hands out the rows of the table as it was when the
  loop started; the handler of line 128 prints the exception and the loop goes on with
  the next row, on the table as the body left it.
\<close>

fun process_loop :: "dtype \<Rightarrow> services \<Rightarrow> nat \<Rightarrow> row list \<Rightarrow> table \<Rightarrow> table" where
  "process_loop dt sv idx [] tbl = tbl"
| "process_loop dt sv idx (row # rows) tbl =
     (let cnpj = dict_get row ''CNPJ''
      in process_loop dt sv (Suc idx) rows (snd (try_row dt sv tbl idx cnpj)))"

text \<open>Lines 100 to 131, on a loaded table.\<close>

definition process_table :: "dtype \<Rightarrow> services \<Rightarrow> table \<Rightarrow> table" where
  "process_table dt sv tbl = (let d = add_columns tbl in process_loop dt sv 0 d d)"

record verifier =
  data :: "table option"

definition process_data :: "dtype \<Rightarrow> services \<Rightarrow> verifier \<Rightarrow> bool \<times> verifier" where
  "process_data dt sv self =
     (case data self of
        None \<Rightarrow> (False, self)
      | Some tbl \<Rightarrow> (True, self\<lparr>data := Some (process_table dt sv tbl)\<rparr>))"

subsection \<open>Notions used in the statements\<close>

definition punct :: "char set" where
  "punct = {CHR ''.'', CHR ''/'', CHR ''-''}"

definition digit_chars :: "char set" where
  "digit_chars = set ''0123456789''"

definition derived_columns :: "string set" where
  "derived_columns = {''validado'', ''dataUltimoArquivamento'', ''externalId'', ''idRedis''}"

text \<open>The assignment of the value to a cell of the dtype does not raise.\<close>

definition accepts :: "dtype \<Rightarrow> pyval \<Rightarrow> bool" where
  "accepts dt v = (case store_value dt v of Inl e \<Rightarrow> False | Inr v' \<Rightarrow> True)"

text \<open>
  The assignments of lines 120 to 126 written on the row alone, for the three values and
  the verdict to store: each assignment up to the first that raises.
\<close>

definition write_cells :: "dtype \<Rightarrow> pyval \<Rightarrow> pyval \<Rightarrow> pyval \<Rightarrow> bool \<Rightarrow> row \<Rightarrow> row" where
  "write_cells dt date_v id_v ext_v verdict r =
     (case store_value dt date_v of
        Inl e \<Rightarrow> r
      | Inr d \<Rightarrow>
          (let r1 = set_cell ''dataUltimoArquivamento'' d r
           in case store_value dt id_v of
                Inl e \<Rightarrow> r1
              | Inr f \<Rightarrow>
                  (let r2 = set_cell ''idRedis'' f r1
                   in case store_value dt ext_v of
                        Inl e \<Rightarrow> r2
                      | Inr x \<Rightarrow>
                          set_cell ''validado'' (PBool verdict)
                            (set_cell ''externalId'' x r2))))"

text \<open>
  What the loop leaves in place \<open>idx\<close> of the table: the row as it was when the
  registry gave no name or the unpacking raised, and otherwise the row with the cells
  written. Neither is a function of the source; \<open>process_table_nth\<close> below proves that
  \<open>process_table\<close> computes \<open>row_after\<close>, and the statements mention neither.
\<close>

definition row_after :: "dtype \<Rightarrow> services \<Rightarrow> nat \<Rightarrow> pyval \<Rightarrow> row \<Rightarrow> row" where
  "row_after dt sv idx cnpj r =
     (case unpack3 (query_fundsnet sv idx cnpj) of
        Inl e \<Rightarrow> r
      | Inr (fund_name, last_delivery_date, external_id) \<Rightarrow>
          if truthy fund_name then
            (let fund_id = query_mziq sv idx fund_name
             in write_cells dt last_delivery_date
                  (if truthy fund_id then fund_id else PStr '''')
                  (if truthy external_id then external_id else PStr '''')
                  (if truthy fund_id then py_eq fund_id (PStr (normalize_cnpj cnpj))
                   else False)
                  r)
          else r)"

text \<open>A row after lines 101 to 104.\<close>

definition default_cells :: "row \<Rightarrow> row" where
  "default_cells r =
     set_cell ''idRedis'' (PStr '''')
       (set_cell ''externalId'' (PStr '''')
         (set_cell ''dataUltimoArquivamento'' (PStr '''')
           (set_cell ''validado'' (PBool False) r)))"

subsection \<open>Example runs\<close>

text \<open>
  The end-to-end scenario of the specification: one fund, found by both services. The
  sheet has a second column, which the program does not read.
\<close>

definition scenario_row :: row where
  "scenario_row = [(''CNPJ'', PStr ''12.345.678/0001-99''), (''Nome'', PStr ''Fund X FII'')]"

definition scenario_services :: services where
  "scenario_services =
     \<lparr>fundsnet_get = (\<lambda>idx cnpj. Response 200 (Some [(''data'',
          [[(''id'', PStr ''D1''), (''descricaoFundo'', PStr ''Fund X''),
            (''dataEntrega'', PStr ''2024-01-15T00:00:00'')]])])),
      mziq_get = (\<lambda>idx fund_name. Response 200 (Some [(''id'', PStr ''12345678000199'')]))\<rparr>"

text \<open>The registry knows no document for the fund.\<close>

definition no_result_services :: services where
  "no_result_services =
     \<lparr>fundsnet_get = (\<lambda>idx cnpj. Response 200 (Some [(''data'', [])])),
      mziq_get = (\<lambda>idx fund_name. Response 404 None)\<rparr>"

text \<open>Every request times out.\<close>

definition timeout_services :: services where
  "timeout_services =
     \<lparr>fundsnet_get = (\<lambda>idx cnpj. Raises), mziq_get = (\<lambda>idx fund_name. Raises)\<rparr>"

text \<open>
  The scenario, but the registry's document of the first row carries its identifier as
  a JSON number; the documents of the later rows carry it as a string.
\<close>

definition numeric_id_services :: services where
  "numeric_id_services =
     scenario_services\<lparr>fundsnet_get :=
       (\<lambda>idx cnpj. if idx = 0
          then Response 200 (Some [(''data'',
                 [[(''id'', PInt 123456), (''descricaoFundo'', PStr ''Fund X''),
                   (''dataEntrega'', PStr ''2024-01-15T00:00:00'')]])])
          else fundsnet_get scenario_services idx cnpj)\<rparr>"

text \<open>
  The registry's document has a name but neither date nor id, and the identity service
  answers with an object without \<open>id\<close>.
\<close>

definition name_only_services :: services where
  "name_only_services =
     \<lparr>fundsnet_get = (\<lambda>idx cnpj. Response 200 (Some [(''data'',
          [[(''descricaoFundo'', PStr ''Fund X'')]])])),
      mziq_get = (\<lambda>idx fund_name. Response 200 (Some []))\<rparr>"

section \<open>Properties\<close>

subsection \<open>Helper lemmas\<close>

lemma re_sub_class_filter:
  "re_sub_class cls '''' s = filter (\<lambda>c. c \<notin> set cls) s"
  by (induction s) simp_all

lemma normalize_cnpj_PStr:
  "normalize_cnpj (PStr s) = filter (\<lambda>c. c \<notin> punct) s"
  by (simp add: re_sub_class_filter punct_def)

lemma normalize_cnpj_filter:
  "normalize_cnpj v =
     (if \<not> truthy v \<or> isna v then [] else filter (\<lambda>c. c \<notin> punct) (py_str v))"
  by (simp add: re_sub_class_filter punct_def)

declare normalize_cnpj.simps [simp del] query_fundsnet.simps [simp del]
  query_mziq.simps [simp del] format_date.simps [simp del]

lemma map_of_set_cell: "map_of (set_cell c v r) = (map_of r)(c \<mapsto> v)"
  by (induction r) (auto simp: fun_eq_iff)

lemma dict_get_set_cell: "dict_get (set_cell c v r) c' = (if c' = c then v else dict_get r c')"
  by (simp add: dict_get_def map_of_set_cell)

lemma filter_set_cell:
  "c \<in> S \<Longrightarrow> filter (\<lambda>p. fst p \<notin> S) (set_cell c v r) = filter (\<lambda>p. fst p \<notin> S) r"
  by (induction r) auto

lemma try_row_settled:
  assumes "idx < length tbl"
  shows "snd (try_row dt sv tbl idx cnpj) = tbl[idx := row_after dt sv idx cnpj (tbl ! idx)]"
proof (cases "unpack3 (query_fundsnet sv idx cnpj)")
  case (Inl e)
  then show ?thesis
    by (simp add: try_row_def row_after_def)
next
  case (Inr t)
  obtain n d x where t: "t = (n, d, x)"
    by (cases t) auto
  show ?thesis
  proof (cases "truthy n")
    case True
    with Inr t assms show ?thesis
      by (simp add: try_row_def row_after_def write_cells_def Let_def at_set_def
            at_set_bool_def split: sum.splits)
  next
    case False
    with Inr t show ?thesis
      by (simp add: try_row_def row_after_def)
  qed
qed

lemma try_row_length: "length (snd (try_row dt sv tbl idx cnpj)) = length tbl"
  by (auto simp: try_row_def Let_def at_set_def at_set_bool_def
        split: sum.splits prod.splits)

lemma process_loop_length: "length (process_loop dt sv k rows tbl) = length tbl"
  by (induction rows arbitrary: k tbl) (simp_all add: Let_def try_row_length)

lemma process_loop_nth:
  assumes "k + length rows \<le> length tbl" and "i < length tbl"
  shows "process_loop dt sv k rows tbl ! i =
           (if k \<le> i \<and> i < k + length rows
            then row_after dt sv i (dict_get (rows ! (i - k)) ''CNPJ'') (tbl ! i)
            else tbl ! i)"
  using assms
proof (induction rows arbitrary: k tbl)
  case Nil
  then show ?case by auto
next
  case (Cons r rows)
  let ?c = "dict_get r ''CNPJ''"
  let ?t = "tbl[k := row_after dt sv k ?c (tbl ! k)]"
  from Cons.prems have k: "k < length tbl"
    by simp
  have step: "process_loop dt sv k (r # rows) tbl = process_loop dt sv (Suc k) rows ?t"
    using try_row_settled [OF k, of dt sv ?c] by (simp add: Let_def)
  have "process_loop dt sv (Suc k) rows ?t ! i =
          (if Suc k \<le> i \<and> i < Suc k + length rows
           then row_after dt sv i (dict_get (rows ! (i - Suc k)) ''CNPJ'') (?t ! i)
           else ?t ! i)"
    using Cons.prems by (intro Cons.IH) simp_all
  with Cons.prems k show ?case
    unfolding step by (cases "i = k") (auto simp: nth_Cons')
qed

lemma add_columns_nth:
  "i < length tbl \<Longrightarrow> add_columns tbl ! i = default_cells (tbl ! i)"
  by (simp add: add_columns_def set_column_def default_cells_def)

lemma add_columns_length: "length (add_columns tbl) = length tbl"
  by (simp add: add_columns_def set_column_def)

lemma dict_get_default_cells_CNPJ: "dict_get (default_cells r) ''CNPJ'' = dict_get r ''CNPJ''"
  by (simp add: default_cells_def dict_get_set_cell)

lemma process_table_length: "length (process_table dt sv tbl) = length tbl"
  by (simp add: process_table_def Let_def process_loop_length add_columns_length)

lemma process_table_nth:
  assumes "i < length tbl"
  shows "process_table dt sv tbl ! i =
           row_after dt sv i (dict_get (tbl ! i) ''CNPJ'') (default_cells (tbl ! i))"
proof -
  let ?d = "add_columns tbl"
  have "process_loop dt sv 0 ?d ?d ! i =
          row_after dt sv i (dict_get (?d ! i) ''CNPJ'') (?d ! i)"
    using assms by (simp add: process_loop_nth add_columns_length)
  with assms show ?thesis
    by (simp add: process_table_def Let_def add_columns_nth dict_get_default_cells_CNPJ)
qed

text \<open>Row i of the output is what row i's own try body leaves on the initial table.\<close>

lemma process_table_nth_try_row:
  assumes "i < length tbl"
  shows "process_table dt sv tbl ! i =
           snd (try_row dt sv (add_columns tbl) i (dict_get (tbl ! i) ''CNPJ'')) ! i"
  using assms
  by (simp add: process_table_nth try_row_settled add_columns_length add_columns_nth)

lemma unpack3_Inr: "unpack3 r = Inr (n, d, x) \<longleftrightarrow> r = [n, d, x]"
  by (cases r rule: unpack3.cases) auto

lemma row_after_unnamed:
  assumes "\<not> (\<exists>n d x. query_fundsnet sv i c = [n, d, x] \<and> truthy n)"
  shows "row_after dt sv i c r = r"
proof (cases "unpack3 (query_fundsnet sv i c)")
  case (Inl e)
  then show ?thesis by (simp add: row_after_def)
next
  case (Inr t)
  obtain n d x where t: "t = (n, d, x)" by (cases t) auto
  with Inr have "query_fundsnet sv i c = [n, d, x]"
    by (simp add: unpack3_Inr)
  with assms have "\<not> truthy n" by blast
  with Inr t show ?thesis by (simp add: row_after_def)
qed

lemma write_cells_date:
  "dict_get (write_cells dt d f x b r) ''dataUltimoArquivamento''
     = (case store_value dt d of Inl e \<Rightarrow> dict_get r ''dataUltimoArquivamento''
        | Inr v \<Rightarrow> v)"
  by (auto simp: write_cells_def Let_def dict_get_set_cell split: sum.splits)

lemma write_cells_idRedis:
  "dict_get (write_cells dt d f x b r) ''idRedis''
     = (case store_value dt f of
          Inl e \<Rightarrow> dict_get r ''idRedis''
        | Inr v \<Rightarrow> if accepts dt d then v else dict_get r ''idRedis'')"
  by (auto simp: write_cells_def Let_def accepts_def dict_get_set_cell split: sum.splits)

lemma write_cells_externalId:
  "dict_get (write_cells dt d f x b r) ''externalId''
     = (case store_value dt x of
          Inl e \<Rightarrow> dict_get r ''externalId''
        | Inr v \<Rightarrow> if accepts dt d \<and> accepts dt f then v else dict_get r ''externalId'')"
  by (auto simp: write_cells_def Let_def accepts_def dict_get_set_cell split: sum.splits)

lemma write_cells_validado:
  "dict_get (write_cells dt d f x b r) ''validado''
     = (if accepts dt d \<and> accepts dt f \<and> accepts dt x then PBool b
        else dict_get r ''validado'')"
  by (auto simp: write_cells_def Let_def accepts_def dict_get_set_cell split: sum.splits)

lemma row_after_named:
  assumes "query_fundsnet sv i c = [n, d, x]" and "truthy n"
  shows "row_after dt sv i c r =
           write_cells dt d
             (if truthy (query_mziq sv i n) then query_mziq sv i n else PStr '''')
             (if truthy x then x else PStr '''')
             (if truthy (query_mziq sv i n)
              then py_eq (query_mziq sv i n) (PStr (normalize_cnpj c)) else False)
             r"
  using assms by (simp add: row_after_def Let_def)

lemma derived_columns_mem:
  "''validado'' \<in> derived_columns" "''dataUltimoArquivamento'' \<in> derived_columns"
  "''externalId'' \<in> derived_columns" "''idRedis'' \<in> derived_columns"
  by (simp_all add: derived_columns_def)

lemma filter_default_cells:
  "filter (\<lambda>p. fst p \<notin> derived_columns) (default_cells r)
     = filter (\<lambda>p. fst p \<notin> derived_columns) r"
  by (simp add: default_cells_def filter_set_cell derived_columns_mem)

lemma filter_row_after:
  "filter (\<lambda>p. fst p \<notin> derived_columns) (row_after dt sv i c r)
     = filter (\<lambda>p. fst p \<notin> derived_columns) r"
  by (simp add: row_after_def write_cells_def Let_def filter_set_cell derived_columns_mem
        split: sum.splits prod.splits)

lemma not_derived:
  assumes "c \<notin> derived_columns"
  shows "c \<noteq> ''validado''" "c \<noteq> ''dataUltimoArquivamento''"
    "c \<noteq> ''externalId''" "c \<noteq> ''idRedis''"
  using assms derived_columns_mem by blast+

lemma map_of_default_cells:
  "c \<notin> derived_columns \<Longrightarrow> map_of (default_cells r) c = map_of r c"
  by (simp add: default_cells_def map_of_set_cell not_derived)

lemma map_of_row_after:
  assumes "c \<notin> derived_columns"
  shows "map_of (row_after dt sv i cnpj r) c = map_of r c"
  using not_derived [OF assms]
  by (simp add: row_after_def write_cells_def Let_def map_of_set_cell
        split: sum.splits prod.splits)

lemma truthy_py_eq_PStr:
  "(truthy f \<and> py_eq f (PStr s)) \<longleftrightarrow> (f \<noteq> PNone \<and> f \<noteq> PStr '''' \<and> f = PStr s)"
  by (cases f) auto

lemma process_data_loaded:
  "process_data dt sv \<lparr>data = Some tbl\<rparr>
     = (True, \<lparr>data = Some (process_table dt sv tbl)\<rparr>)"
  by (simp add: process_data_def)

lemma dict_get_default_cells:
  "dict_get (default_cells r) ''validado'' = PBool False"
  "dict_get (default_cells r) ''dataUltimoArquivamento'' = PStr ''''"
  "dict_get (default_cells r) ''externalId'' = PStr ''''"
  "dict_get (default_cells r) ''idRedis'' = PStr ''''"
  by (simp_all add: default_cells_def dict_get_set_cell)

lemma accepts_Inr: "accepts dt v \<Longrightarrow> \<exists>v'. store_value dt v = Inr v'"
  by (cases "store_value dt v") (simp_all add: accepts_def)

lemma not_accepts_Inl: "\<not> accepts dt v \<Longrightarrow> store_value dt v = Inl TypeError"
  by (cases dt; cases v) (simp_all add: accepts_def)

lemma try_row_fst_named:
  assumes "query_fundsnet sv j c = [n, d, x]" and "truthy n"
  shows "fst (try_row dt sv t j c) =
           (if accepts dt d \<and>
               accepts dt (if truthy (query_mziq sv j n) then query_mziq sv j n else PStr '''') \<and>
               accepts dt (if truthy x then x else PStr '''')
            then None else Some TypeError)"
proof -
  define fv where "fv = (if truthy (query_mziq sv j n) then query_mziq sv j n else PStr '''')"
  define xv where "xv = (if truthy x then x else PStr '''')"
  define b where "b = (if truthy (query_mziq sv j n)
                        then py_eq (query_mziq sv j n) (PStr (normalize_cnpj c)) else False)"
  have tr: "try_row dt sv t j c =
              (case at_set dt t j ''dataUltimoArquivamento'' d of
                 Inl e \<Rightarrow> (Some e, t)
               | Inr d1 \<Rightarrow>
                   (case at_set dt d1 j ''idRedis'' fv of
                      Inl e \<Rightarrow> (Some e, d1)
                    | Inr d2 \<Rightarrow>
                        (case at_set dt d2 j ''externalId'' xv of
                           Inl e \<Rightarrow> (Some e, d2)
                         | Inr d3 \<Rightarrow> (None, at_set_bool d3 j ''validado'' b))))"
    unfolding fv_def xv_def b_def using assms
    by (simp add: try_row_def Let_def split del: if_split cong: sum.case_cong)
  have "fst (try_row dt sv t j c) =
          (if accepts dt d \<and> accepts dt fv \<and> accepts dt xv then None else Some TypeError)"
  proof (cases "accepts dt d")
    case False
    then show ?thesis
      by (simp add: tr at_set_def not_accepts_Inl)
  next
    case d: True
    then obtain d' where d': "store_value dt d = Inr d'"
      using accepts_Inr by blast
    show ?thesis
    proof (cases "accepts dt fv")
      case False
      with d d' show ?thesis
        by (simp add: tr at_set_def not_accepts_Inl)
    next
      case f: True
      then obtain f' where f': "store_value dt fv = Inr f'"
        using accepts_Inr by blast
      show ?thesis
      proof (cases "accepts dt xv")
        case False
        with d d' f f' show ?thesis
          by (simp add: tr at_set_def not_accepts_Inl)
      next
        case x: True
        then obtain x' where "store_value dt xv = Inr x'"
          using accepts_Inr by blast
        with d d' f f' x show ?thesis
          by (simp add: tr at_set_def)
      qed
    qed
  qed
  then show ?thesis
    by (simp only: fv_def xv_def)
qed

lemma try_row_fst_unnamed:
  assumes "\<not> (\<exists>n d x. query_fundsnet sv j c = [n, d, x] \<and> truthy n)"
  shows "try_row dt sv t j c
           = (case unpack3 (query_fundsnet sv j c) of Inl e \<Rightarrow> Some e | Inr p \<Rightarrow> None, t)"
proof (cases "unpack3 (query_fundsnet sv j c)")
  case (Inl e)
  then show ?thesis by (simp add: try_row_def)
next
  case (Inr p)
  obtain n d x where p: "p = (n, d, x)" by (cases p) auto
  with Inr have "query_fundsnet sv j c = [n, d, x]"
    by (simp add: unpack3_Inr)
  with assms have "\<not> truthy n" by blast
  with Inr p show ?thesis by (simp add: try_row_def)
qed

text \<open>When the body of a row raises, line 126 is not reached.\<close>

lemma try_row_raises_validado:
  assumes "fst (try_row dt sv t j c) = Some e"
  shows "dict_get (row_after dt sv j c r) ''validado'' = dict_get r ''validado''"
proof (cases "\<exists>n d x. query_fundsnet sv j c = [n, d, x] \<and> truthy n")
  case True
  then obtain n d x where q: "query_fundsnet sv j c = [n, d, x]" and n: "truthy n"
    by blast
  define A where "A \<longleftrightarrow> accepts dt d \<and>
      accepts dt (if truthy (query_mziq sv j n) then query_mziq sv j n else PStr '''') \<and>
      accepts dt (if truthy x then x else PStr '''')"
  have "fst (try_row dt sv t j c) = (if A then None else Some TypeError)"
    unfolding A_def by (rule try_row_fst_named [OF q n])
  with assms have "\<not> A"
    by (cases A) simp_all
  moreover have "dict_get (row_after dt sv j c r) ''validado''
      = (if A then PBool (if truthy (query_mziq sv j n)
                          then py_eq (query_mziq sv j n) (PStr (normalize_cnpj c)) else False)
         else dict_get r ''validado'')"
    unfolding A_def by (simp only: row_after_named [OF q n] write_cells_validado)
  ultimately show ?thesis
    by simp
next
  case False
  then show ?thesis
    by (simp add: row_after_unnamed)
qed

lemma accepts_simps:
  "accepts Object_dtype v" "accepts dt (PStr s)" "accepts dt PNone" "accepts dt PNaN"
  "accepts Str_dtype (PInt n) = False" "accepts Str_dtype (PBool b) = False"
  by (cases dt; simp add: accepts_def)+

lemma store_value_PStr: "store_value dt (PStr s) = Inr (PStr s)"
  by (cases dt) simp_all

lemma store_value_PNone:
  "store_value dt PNone = Inr (case dt of Object_dtype \<Rightarrow> PNone | Str_dtype \<Rightarrow> PNaN)"
  by (cases dt) simp_all

lemma scenario_cnpj: "dict_get scenario_row ''CNPJ'' = PStr ''12.345.678/0001-99''"
  by (simp add: scenario_row_def dict_get_def)

lemma scenario_normalized: "normalize_cnpj (PStr ''12.345.678/0001-99'') = ''12345678000199''"
  by (simp add: normalize_cnpj_PStr punct_def)

lemma scenario_query_fundsnet:
  "query_fundsnet scenario_services i (PStr ''12.345.678/0001-99'')
     = [PStr ''Fund X'', PStr ''2024-01-15T00:00:00'', PStr ''D1'']"
  by (simp add: query_fundsnet.simps scenario_services_def dict_get_def)

lemma scenario_query_mziq:
  "query_mziq scenario_services i (PStr ''Fund X'') = PStr ''12345678000199''"
  by (simp add: query_mziq.simps scenario_services_def dict_get_def)

lemma numeric_query_fundsnet_0:
  "query_fundsnet numeric_id_services 0 (PStr ''12.345.678/0001-99'')
     = [PStr ''Fund X'', PStr ''2024-01-15T00:00:00'', PInt 123456]"
  by (simp add: query_fundsnet.simps numeric_id_services_def dict_get_def)

lemma numeric_query_fundsnet_1:
  "query_fundsnet numeric_id_services (Suc 0) (PStr ''12.345.678/0001-99'')
     = [PStr ''Fund X'', PStr ''2024-01-15T00:00:00'', PStr ''D1'']"
  by (simp add: query_fundsnet.simps numeric_id_services_def scenario_services_def
        dict_get_def)

lemma numeric_query_mziq:
  "query_mziq numeric_id_services i (PStr ''Fund X'') = PStr ''12345678000199''"
  by (simp add: query_mziq.simps numeric_id_services_def scenario_services_def dict_get_def)

lemma name_only_query_fundsnet:
  "query_fundsnet name_only_services i (PStr ''12.345.678/0001-99'')
     = [PStr ''Fund X'', PNone, PNone]"
  by (simp add: query_fundsnet.simps name_only_services_def dict_get_def)

lemma name_only_query_mziq: "query_mziq name_only_services i (PStr ''Fund X'') = PNone"
  by (simp add: query_mziq.simps name_only_services_def dict_get_def)

text \<open>The derived cells of an output row whose fund the registry named.\<close>

lemma process_table_named_cells:
  assumes "i < length tbl"
    and "query_fundsnet sv i (dict_get (tbl ! i) ''CNPJ'') = [n, d, x]" and "truthy n"
  defines "f \<equiv> query_mziq sv i n"
  defines "fv \<equiv> (if truthy f then f else PStr '''')"
  defines "xv \<equiv> (if truthy x then x else PStr '''')"
  shows "dict_get (process_table dt sv tbl ! i) ''dataUltimoArquivamento''
           = (case store_value dt d of Inl e \<Rightarrow> PStr '''' | Inr v \<Rightarrow> v)"
    and "dict_get (process_table dt sv tbl ! i) ''idRedis''
           = (case store_value dt fv of
                Inl e \<Rightarrow> PStr ''''
              | Inr v \<Rightarrow> if accepts dt d then v else PStr '''')"
    and "dict_get (process_table dt sv tbl ! i) ''externalId''
           = (case store_value dt xv of
                Inl e \<Rightarrow> PStr ''''
              | Inr v \<Rightarrow> if accepts dt d \<and> accepts dt fv then v else PStr '''')"
    and "dict_get (process_table dt sv tbl ! i) ''validado''
           = PBool (accepts dt d \<and> accepts dt fv \<and> accepts dt xv \<and>
                    truthy f \<and> py_eq f (PStr (normalize_cnpj (dict_get (tbl ! i) ''CNPJ''))))"
proof -
  let ?c = "dict_get (tbl ! i) ''CNPJ''"
  have row: "process_table dt sv tbl ! i
               = write_cells dt d fv xv
                   (if truthy f then py_eq f (PStr (normalize_cnpj ?c)) else False)
                   (default_cells (tbl ! i))"
    unfolding f_def fv_def xv_def
    using assms(1) by (simp only: process_table_nth row_after_named [OF assms(2,3)])
  show "dict_get (process_table dt sv tbl ! i) ''dataUltimoArquivamento''
           = (case store_value dt d of Inl e \<Rightarrow> PStr '''' | Inr v \<Rightarrow> v)"
    by (simp only: row write_cells_date dict_get_default_cells)
  show "dict_get (process_table dt sv tbl ! i) ''idRedis''
           = (case store_value dt fv of
                Inl e \<Rightarrow> PStr ''''
              | Inr v \<Rightarrow> if accepts dt d then v else PStr '''')"
    by (simp only: row write_cells_idRedis dict_get_default_cells)
  show "dict_get (process_table dt sv tbl ! i) ''externalId''
           = (case store_value dt xv of
                Inl e \<Rightarrow> PStr ''''
              | Inr v \<Rightarrow> if accepts dt d \<and> accepts dt fv then v else PStr '''')"
    by (simp only: row write_cells_externalId dict_get_default_cells)
  have "dict_get (process_table dt sv tbl ! i) ''validado''
          = (if accepts dt d \<and> accepts dt fv \<and> accepts dt xv
             then PBool (if truthy f then py_eq f (PStr (normalize_cnpj ?c)) else False)
             else PBool False)"
    by (simp only: row write_cells_validado dict_get_default_cells)
  then show "dict_get (process_table dt sv tbl ! i) ''validado''
           = PBool (accepts dt d \<and> accepts dt fv \<and> accepts dt xv \<and>
                    truthy f \<and> py_eq f (PStr (normalize_cnpj ?c)))"
    by auto
qed

lemma store_value_accepts: "store_value dt v = Inr v' \<Longrightarrow> accepts dt v"
  by (simp add: accepts_def)

lemma process_table_named_stored:
  assumes "i < length tbl"
    and "query_fundsnet sv i (dict_get (tbl ! i) ''CNPJ'') = [n, d, x]" and "truthy n"
    and "store_value dt d = Inr dv"
    and "store_value dt (if truthy (query_mziq sv i n) then query_mziq sv i n else PStr '''')
           = Inr fv"
    and "store_value dt (if truthy x then x else PStr '''') = Inr xv"
  shows "dict_get (process_table dt sv tbl ! i) ''dataUltimoArquivamento'' = dv \<and>
         dict_get (process_table dt sv tbl ! i) ''idRedis'' = fv \<and>
         dict_get (process_table dt sv tbl ! i) ''externalId'' = xv \<and>
         dict_get (process_table dt sv tbl ! i) ''validado''
           = PBool (query_mziq sv i n \<noteq> PNone \<and> query_mziq sv i n \<noteq> PStr '''' \<and>
                    query_mziq sv i n = PStr (normalize_cnpj (dict_get (tbl ! i) ''CNPJ'')))"
proof -
  note acc = store_value_accepts [OF assms(4)] store_value_accepts [OF assms(5)]
    store_value_accepts [OF assms(6)]
  have "dict_get (process_table dt sv tbl ! i) ''dataUltimoArquivamento'' = dv"
    by (simp only: process_table_named_cells(1) [OF assms(1-3)] assms(4) sum.case)
  moreover have "dict_get (process_table dt sv tbl ! i) ''idRedis'' = fv"
    by (simp only: process_table_named_cells(2) [OF assms(1-3)] assms(5) sum.case acc if_True)
  moreover have "dict_get (process_table dt sv tbl ! i) ''externalId'' = xv"
    using acc
    by (simp only: process_table_named_cells(3) [OF assms(1-3)] assms(6) sum.case) simp
  moreover have "dict_get (process_table dt sv tbl ! i) ''validado''
           = PBool (query_mziq sv i n \<noteq> PNone \<and> query_mziq sv i n \<noteq> PStr '''' \<and>
                    query_mziq sv i n = PStr (normalize_cnpj (dict_get (tbl ! i) ''CNPJ'')))"
    using acc
    by (simp only: process_table_named_cells(4) [OF assms(1-3)])
       (simp add: truthy_py_eq_PStr)
  ultimately show ?thesis
    by simp
qed

subsection \<open>The row reconciler\<close>

text \<open>
  C1. For a row whose fund the registry names, the column \<open>dataUltimoArquivamento\<close>
  should hold the formatted delivery date: the part before \<open>T\<close>. The program stores
  the delivery date as the registry sent it. In the scenario of the specification the
  cell holds \<open>2024-01-15T00:00:00\<close> under either dtype, while \<open>format_date\<close>, which no
  line calls, would have given \<open>2024-01-15\<close>.
\<close>

theorem delivery_date_stored_unformatted:
  "dict_get (process_table dt scenario_services [scenario_row] ! 0) ''dataUltimoArquivamento''
     = PStr ''2024-01-15T00:00:00'' \<and>
   format_date (PStr ''2024-01-15T00:00:00'') = PStr ''2024-01-15''"
proof -
  have q: "query_fundsnet scenario_services 0 (dict_get ([scenario_row] ! 0) ''CNPJ'')
             = [PStr ''Fund X'', PStr ''2024-01-15T00:00:00'', PStr ''D1'']"
    by (simp add: scenario_cnpj scenario_query_fundsnet)
  have tr: "truthy (PStr ''Fund X'')"
    by simp
  have i: "0 < length [scenario_row]"
    by simp
  have "dict_get (process_table dt scenario_services [scenario_row] ! 0)
          ''dataUltimoArquivamento'' = PStr ''2024-01-15T00:00:00''"
    by (simp only: process_table_named_cells(1) [OF i q tr] store_value_PStr sum.case)
  moreover have "format_date (PStr ''2024-01-15T00:00:00'') = PStr ''2024-01-15''"
    by (simp add: format_date.simps split_T_first_def)
  ultimately show ?thesis by simp
qed

text \<open>
  C2. \<open>query_fundsnet\<close> should answer every failure with the triple of \<open>None\<close>. When
  the request raises, the handler returns a pair instead; only the other exits (a
  missing identifier, for which no request is made, a status other than 200, an empty
  result set) return the triple.
\<close>

theorem query_fundsnet_error_returns_pair:
  "fundsnet_get timeout_services 0 (PStr ''12.345.678/0001-99'') = Raises \<and>
   query_fundsnet timeout_services 0 (PStr ''12.345.678/0001-99'') = [PNone, PNone] \<and>
   query_fundsnet timeout_services 0 (PStr ''12.345.678/0001-99'') \<noteq> [PNone, PNone, PNone] \<and>
   query_fundsnet timeout_services 0 PNone = [PNone, PNone, PNone]"
  by (simp add: query_fundsnet.simps timeout_services_def)

text \<open>
  The exits of \<open>query_fundsnet\<close> that do return the triple: no identifier (whatever the
  service would say, so no request is made), a status other than 200, no document.
\<close>

lemma query_fundsnet_triple_exits:
  "query_fundsnet sv idx PNone = [PNone, PNone, PNone] \<and>
   query_fundsnet sv idx PNaN = [PNone, PNone, PNone] \<and>
   query_fundsnet sv idx (PStr '''') = [PNone, PNone, PNone] \<and>
   (fundsnet_get sv idx cnpj = Response status_code body \<and> status_code \<noteq> 200 \<longrightarrow>
      query_fundsnet sv idx cnpj = [PNone, PNone, PNone]) \<and>
   (fundsnet_get sv idx cnpj = Response 200 (Some [(''data'', [])]) \<longrightarrow>
      query_fundsnet sv idx cnpj = [PNone, PNone, PNone]) \<and>
   (fundsnet_get sv idx cnpj = Response 200 (Some []) \<longrightarrow>
      query_fundsnet sv idx cnpj = [PNone, PNone, PNone])"
  by (simp add: query_fundsnet.simps)

text \<open>
  The exits that return the pair, for an identifier that is sent: the request raises,
  or the body of a 200 answer cannot be read.
\<close>

lemma query_fundsnet_pair_exits:
  assumes "truthy cnpj" and "\<not> isna cnpj"
    and "fundsnet_get sv idx cnpj = Raises \<or> fundsnet_get sv idx cnpj = Response 200 None"
  shows "query_fundsnet sv idx cnpj = [PNone, PNone]"
  using assms by (auto simp: query_fundsnet.simps)

text \<open>
  C3, as amended. In a row whose fund the registry names, \<open>validado\<close> is true exactly
  when the assignments of lines 120 to 122 do not raise and the identity service's
  answer is not empty (neither \<open>None\<close> nor the empty string) and is the very string
  \<open>normalize_cnpj\<close> gives for the row's CNPJ. The assignment of the identity service's
  answer cannot raise when that answer is this string, so the two that count are the
  delivery date and the document identifier. With \<open>object\<close> columns no assignment
  raises, and the claim holds as the specification states it. In every case
  \<open>validado\<close> is false when the identity service gave no result.
\<close>

theorem validado_iff_stored_and_equal:
  assumes "i < length tbl"
    and "query_fundsnet sv i (dict_get (tbl ! i) ''CNPJ'')
           = [fund_name, last_delivery_date, external_id]"
    and "truthy fund_name"
  shows "dict_get (process_table dt sv tbl ! i) ''validado''
           = PBool (accepts dt last_delivery_date \<and>
                    accepts dt (if truthy external_id then external_id else PStr '''') \<and>
                    query_mziq sv i fund_name \<noteq> PNone \<and>
                    query_mziq sv i fund_name \<noteq> PStr '''' \<and>
                    query_mziq sv i fund_name
                      = PStr (normalize_cnpj (dict_get (tbl ! i) ''CNPJ''))) \<and>
         (dt = Object_dtype \<longrightarrow>
            dict_get (process_table dt sv tbl ! i) ''validado''
              = PBool (query_mziq sv i fund_name \<noteq> PNone \<and>
                       query_mziq sv i fund_name \<noteq> PStr '''' \<and>
                       query_mziq sv i fund_name
                         = PStr (normalize_cnpj (dict_get (tbl ! i) ''CNPJ'')))) \<and>
         (query_mziq sv i fund_name = PNone \<longrightarrow>
            dict_get (process_table dt sv tbl ! i) ''validado'' = PBool False)"
proof -
  let ?f = "query_mziq sv i fund_name"
  let ?s = "normalize_cnpj (dict_get (tbl ! i) ''CNPJ'')"
  let ?fv = "if truthy ?f then ?f else PStr ''''"
  let ?xv = "if truthy external_id then external_id else PStr ''''"
  have cell: "dict_get (process_table dt sv tbl ! i) ''validado''
                = PBool (accepts dt last_delivery_date \<and> accepts dt ?fv \<and> accepts dt ?xv \<and>
                         truthy ?f \<and> py_eq ?f (PStr ?s))"
    by (rule process_table_named_cells(4) [OF assms])
  have eq: "(truthy ?f \<and> py_eq ?f (PStr ?s))
              \<longleftrightarrow> (?f \<noteq> PNone \<and> ?f \<noteq> PStr '''' \<and> ?f = PStr ?s)"
    by (rule truthy_py_eq_PStr)
  have fv: "accepts dt ?fv" if "?f = PStr ?s"
    using that by (simp add: accepts_simps)
  have main: "dict_get (process_table dt sv tbl ! i) ''validado''
                = PBool (accepts dt last_delivery_date \<and> accepts dt ?xv \<and>
                         ?f \<noteq> PNone \<and> ?f \<noteq> PStr '''' \<and> ?f = PStr ?s)"
    using cell eq fv by auto
  have obj: "dict_get (process_table dt sv tbl ! i) ''validado''
               = PBool (?f \<noteq> PNone \<and> ?f \<noteq> PStr '''' \<and> ?f = PStr ?s)"
    if "dt = Object_dtype"
    using main that by (simp add: accepts_simps)
  show ?thesis
    using main obj by simp
qed

theorem validado_iff_stored_and_equal_witness:
  "query_fundsnet scenario_services 0 (dict_get ([scenario_row] ! 0) ''CNPJ'')
     = [PStr ''Fund X'', PStr ''2024-01-15T00:00:00'', PStr ''D1''] \<and>
   query_mziq scenario_services 0 (PStr ''Fund X'') = PStr ''12345678000199'' \<and>
   dict_get (process_table Str_dtype scenario_services [scenario_row] ! 0) ''validado''
     = PBool True"
proof -
  have q: "query_fundsnet scenario_services 0 (dict_get ([scenario_row] ! 0) ''CNPJ'')
             = [PStr ''Fund X'', PStr ''2024-01-15T00:00:00'', PStr ''D1'']"
    by (simp add: scenario_cnpj scenario_query_fundsnet)
  have tr: "truthy (PStr ''Fund X'')"
    by simp
  have i: "0 < length [scenario_row]"
    by simp
  from validado_iff_stored_and_equal [OF i q tr, of Str_dtype]
  have "dict_get (process_table Str_dtype scenario_services [scenario_row] ! 0) ''validado''
          = PBool True"
    by (simp add: scenario_query_mziq scenario_cnpj scenario_normalized accepts_simps)
  with q show ?thesis
    by (simp add: scenario_query_mziq)
qed

text \<open>
  C3 as the specification states it fails with \<open>str\<close> columns: the registry's document
  carries its identifier as a number, the identity service answers with the normalized
  CNPJ of the row, line 122 raises TypeError, line 126 is not reached, and \<open>validado\<close>
  stays false.
\<close>

theorem validado_false_on_numeric_registry_id:
  "query_fundsnet numeric_id_services 0 (dict_get ([scenario_row] ! 0) ''CNPJ'')
     = [PStr ''Fund X'', PStr ''2024-01-15T00:00:00'', PInt 123456] \<and>
   truthy (PStr ''Fund X'') \<and>
   query_mziq numeric_id_services 0 (PStr ''Fund X'') \<noteq> PNone \<and>
   query_mziq numeric_id_services 0 (PStr ''Fund X'') \<noteq> PStr '''' \<and>
   query_mziq numeric_id_services 0 (PStr ''Fund X'')
     = PStr (normalize_cnpj (dict_get ([scenario_row] ! 0) ''CNPJ'')) \<and>
   dict_get (process_table Str_dtype numeric_id_services [scenario_row] ! 0) ''validado''
     = PBool False"
proof -
  have q: "query_fundsnet numeric_id_services 0 (dict_get ([scenario_row] ! 0) ''CNPJ'')
             = [PStr ''Fund X'', PStr ''2024-01-15T00:00:00'', PInt 123456]"
    by (simp add: scenario_cnpj numeric_query_fundsnet_0)
  have tr: "truthy (PStr ''Fund X'')"
    by simp
  have i: "0 < length [scenario_row]"
    by simp
  have "dict_get (process_table Str_dtype numeric_id_services [scenario_row] ! 0) ''validado''
          = PBool False"
    by (simp only: process_table_named_cells(4) [OF i q tr]) (simp add: accepts_simps)
  with q show ?thesis
    by (simp add: numeric_query_mziq scenario_cnpj scenario_normalized)
qed

text \<open>
  C4. On a loaded table \<open>process_data\<close> succeeds and leaves a table with as many rows
  as it found, in the same order: without the four derived columns the table after is
  the table before, row by row, whatever the services answer and whatever raises.
\<close>

theorem row_count_and_order_preserved:
  "process_data dt sv \<lparr>data = Some tbl\<rparr>
     = (True, \<lparr>data = Some (process_table dt sv tbl)\<rparr>) \<and>
   length (process_table dt sv tbl) = length tbl \<and>
   map (filter (\<lambda>p. fst p \<notin> derived_columns)) (process_table dt sv tbl)
     = map (filter (\<lambda>p. fst p \<notin> derived_columns)) tbl"
proof -
  have "map (filter (\<lambda>p. fst p \<notin> derived_columns)) (process_table dt sv tbl)
          = map (filter (\<lambda>p. fst p \<notin> derived_columns)) tbl"
  proof (rule nth_equalityI)
    show "length (map (filter (\<lambda>p. fst p \<notin> derived_columns)) (process_table dt sv tbl))
            = length (map (filter (\<lambda>p. fst p \<notin> derived_columns)) tbl)"
      by (simp add: process_table_length)
  next
    fix i
    assume "i < length (map (filter (\<lambda>p. fst p \<notin> derived_columns))
                  (process_table dt sv tbl))"
    then have i: "i < length tbl"
      by (simp add: process_table_length)
    then show "map (filter (\<lambda>p. fst p \<notin> derived_columns)) (process_table dt sv tbl) ! i
                 = map (filter (\<lambda>p. fst p \<notin> derived_columns)) tbl ! i"
      by (simp add: process_table_length process_table_nth filter_row_after
            filter_default_cells)
  qed
  then show ?thesis
    by (simp add: process_data_loaded process_table_length)
qed

text \<open>
  C5. In a row for which the registry gives no fund name (its answer is not a triple
  with a true first component), the four derived cells hold their defaults: \<open>False\<close>
  and three empty strings.
\<close>

theorem no_fund_name_defaults:
  assumes "i < length tbl"
    and "\<not> (\<exists>n d x. query_fundsnet sv i (dict_get (tbl ! i) ''CNPJ'') = [n, d, x] \<and> truthy n)"
  shows "dict_get (process_table dt sv tbl ! i) ''validado'' = PBool False \<and>
         dict_get (process_table dt sv tbl ! i) ''dataUltimoArquivamento'' = PStr '''' \<and>
         dict_get (process_table dt sv tbl ! i) ''externalId'' = PStr '''' \<and>
         dict_get (process_table dt sv tbl ! i) ''idRedis'' = PStr ''''"
proof -
  have "process_table dt sv tbl ! i = default_cells (tbl ! i)"
    using assms by (simp add: process_table_nth row_after_unnamed)
  then show ?thesis
    by (simp add: dict_get_default_cells)
qed

theorem no_fund_name_defaults_witness:
  "query_fundsnet no_result_services 0 (dict_get ([scenario_row] ! 0) ''CNPJ'')
     = [PNone, PNone, PNone] \<and>
   dict_get (process_table Str_dtype no_result_services [scenario_row] ! 0) ''validado''
     = PBool False \<and>
   dict_get (process_table Str_dtype no_result_services [scenario_row] ! 0)
     ''dataUltimoArquivamento'' = PStr '''' \<and>
   dict_get (process_table Str_dtype no_result_services [scenario_row] ! 0) ''externalId''
     = PStr '''' \<and>
   dict_get (process_table Str_dtype no_result_services [scenario_row] ! 0) ''idRedis''
     = PStr ''''"
proof -
  have q: "query_fundsnet no_result_services 0 (dict_get ([scenario_row] ! 0) ''CNPJ'')
             = [PNone, PNone, PNone]"
    by (simp add: query_fundsnet.simps no_result_services_def scenario_row_def dict_get_def)
  then have "\<not> (\<exists>n d x. query_fundsnet no_result_services 0
                 (dict_get ([scenario_row] ! 0) ''CNPJ'') = [n, d, x] \<and> truthy n)"
    by simp
  with no_fund_name_defaults [of 0 "[scenario_row]" no_result_services Str_dtype] q
  show ?thesis by simp
qed

text \<open>
  C6. Let the \<open>try\<close> body of row \<open>j\<close> raise any exception \<open>e\<close> (the ValueError of the
  unpacking or the TypeError of an assignment; the body raises the same on whatever
  table \<open>t\<close> it runs). Then \<open>process_data\<close> still succeeds with a table of the same
  length; line 126 was not reached in row \<open>j\<close>, so its \<open>validado\<close> is false, and the
  row holds what its body had assigned before it raised. Every
  other row \<open>i\<close> holds what its own \<open>try\<close> body leaves in place \<open>i\<close> of the freshly
  initialised table, which is: the four defaults when the registry gave no name for it;
  and, when the registry named its fund and its three assignments store \<open>dv\<close>, \<open>fv\<close> and
  \<open>xv\<close>, these three values and the verdict of its own comparison.
\<close>

theorem row_failure_isolated:
  assumes "j < length tbl"
    and "fst (try_row dt sv t j (dict_get (tbl ! j) ''CNPJ'')) = Some e"
  shows "process_data dt sv \<lparr>data = Some tbl\<rparr>
           = (True, \<lparr>data = Some (process_table dt sv tbl)\<rparr>) \<and>
         length (process_table dt sv tbl) = length tbl \<and>
         dict_get (process_table dt sv tbl ! j) ''validado'' = PBool False \<and>
         process_table dt sv tbl ! j
           = snd (try_row dt sv (add_columns tbl) j (dict_get (tbl ! j) ''CNPJ'')) ! j \<and>
         (\<forall>i<length tbl. i \<noteq> j \<longrightarrow>
            process_table dt sv tbl ! i
              = snd (try_row dt sv (add_columns tbl) i (dict_get (tbl ! i) ''CNPJ'')) ! i \<and>
            (\<not> (\<exists>n d x. query_fundsnet sv i (dict_get (tbl ! i) ''CNPJ'') = [n, d, x] \<and>
                   truthy n) \<longrightarrow>
               dict_get (process_table dt sv tbl ! i) ''validado'' = PBool False \<and>
               dict_get (process_table dt sv tbl ! i) ''dataUltimoArquivamento'' = PStr '''' \<and>
               dict_get (process_table dt sv tbl ! i) ''externalId'' = PStr '''' \<and>
               dict_get (process_table dt sv tbl ! i) ''idRedis'' = PStr '''') \<and>
            (\<forall>n d x dv fv xv.
               query_fundsnet sv i (dict_get (tbl ! i) ''CNPJ'') = [n, d, x] \<and> truthy n \<and>
               store_value dt d = Inr dv \<and>
               store_value dt (if truthy (query_mziq sv i n) then query_mziq sv i n
                               else PStr '''') = Inr fv \<and>
               store_value dt (if truthy x then x else PStr '''') = Inr xv \<longrightarrow>
               dict_get (process_table dt sv tbl ! i) ''dataUltimoArquivamento'' = dv \<and>
               dict_get (process_table dt sv tbl ! i) ''idRedis'' = fv \<and>
               dict_get (process_table dt sv tbl ! i) ''externalId'' = xv \<and>
               dict_get (process_table dt sv tbl ! i) ''validado''
                 = PBool (query_mziq sv i n \<noteq> PNone \<and> query_mziq sv i n \<noteq> PStr '''' \<and>
                          query_mziq sv i n
                            = PStr (normalize_cnpj (dict_get (tbl ! i) ''CNPJ'')))))"
proof -
  have failed: "dict_get (process_table dt sv tbl ! j) ''validado'' = PBool False"
    using assms(1) try_row_raises_validado [OF assms(2)]
    by (simp add: process_table_nth dict_get_default_cells)
  have own: "process_table dt sv tbl ! i
               = snd (try_row dt sv (add_columns tbl) i (dict_get (tbl ! i) ''CNPJ'')) ! i"
    if "i < length tbl" for i
    using that by (rule process_table_nth_try_row)
  have unnamed: "dict_get (process_table dt sv tbl ! i) ''validado'' = PBool False \<and>
      dict_get (process_table dt sv tbl ! i) ''dataUltimoArquivamento'' = PStr '''' \<and>
      dict_get (process_table dt sv tbl ! i) ''externalId'' = PStr '''' \<and>
      dict_get (process_table dt sv tbl ! i) ''idRedis'' = PStr ''''"
    if "i < length tbl"
      and "\<not> (\<exists>n d x. query_fundsnet sv i (dict_get (tbl ! i) ''CNPJ'') = [n, d, x] \<and>
                truthy n)" for i
    using that by (simp add: process_table_nth row_after_unnamed dict_get_default_cells)
  show ?thesis
    using failed own own [OF assms(1)] unnamed
      process_table_named_stored [of _ tbl sv _ _ _ dt]
    by (simp add: process_data_loaded process_table_length)
qed

theorem row_failure_isolated_witness:
  "fst (try_row Str_dtype numeric_id_services (add_columns [scenario_row, scenario_row]) 0
          (dict_get ([scenario_row, scenario_row] ! 0) ''CNPJ'')) = Some TypeError \<and>
   length (process_table Str_dtype numeric_id_services [scenario_row, scenario_row]) = 2 \<and>
   dict_get (process_table Str_dtype numeric_id_services [scenario_row, scenario_row] ! 0)
     ''validado'' = PBool False \<and>
   dict_get (process_table Str_dtype numeric_id_services [scenario_row, scenario_row] ! 0)
     ''dataUltimoArquivamento'' = PStr ''2024-01-15T00:00:00'' \<and>
   dict_get (process_table Str_dtype numeric_id_services [scenario_row, scenario_row] ! 0)
     ''externalId'' = PStr '''' \<and>
   dict_get (process_table Str_dtype numeric_id_services [scenario_row, scenario_row] ! 1)
     ''dataUltimoArquivamento'' = PStr ''2024-01-15T00:00:00'' \<and>
   dict_get (process_table Str_dtype numeric_id_services [scenario_row, scenario_row] ! 1)
     ''idRedis'' = PStr ''12345678000199'' \<and>
   dict_get (process_table Str_dtype numeric_id_services [scenario_row, scenario_row] ! 1)
     ''externalId'' = PStr ''D1'' \<and>
   dict_get (process_table Str_dtype numeric_id_services [scenario_row, scenario_row] ! 1)
     ''validado'' = PBool True"
proof -
  let ?T = "[scenario_row, scenario_row]"
  let ?out = "process_table Str_dtype numeric_id_services ?T"
  have l: "0 < length ?T"
    by simp
  have q0: "query_fundsnet numeric_id_services 0 (dict_get (?T ! 0) ''CNPJ'')
              = [PStr ''Fund X'', PStr ''2024-01-15T00:00:00'', PInt 123456]"
    by (simp add: scenario_cnpj numeric_query_fundsnet_0)
  have tr: "truthy (PStr ''Fund X'')"
    by simp
  have r: "fst (try_row Str_dtype numeric_id_services (add_columns ?T) 0
                 (dict_get (?T ! 0) ''CNPJ'')) = Some TypeError"
    by (simp only: try_row_fst_named [OF q0 tr]) (simp add: accepts_simps)
  note t = row_failure_isolated [OF l r]
  from t have len: "length ?out = length ?T"
    by (elim conjE)
  from t have first: "dict_get (?out ! 0) ''validado'' = PBool False"
    by (elim conjE)
  have l1: "1 < length ?T"
    by simp
  have q1: "query_fundsnet numeric_id_services 1 (dict_get (?T ! 1) ''CNPJ'')
              = [PStr ''Fund X'', PStr ''2024-01-15T00:00:00'', PStr ''D1'']"
    by (simp add: scenario_cnpj numeric_query_fundsnet_1)
  have kept: "dict_get (?out ! 0) ''dataUltimoArquivamento'' = PStr ''2024-01-15T00:00:00''"
    by (simp only: process_table_named_cells(1) [OF l q0 tr] store_value_PStr sum.case)
  have unset: "dict_get (?out ! 0) ''externalId'' = PStr ''''"
    by (simp only: process_table_named_cells(3) [OF l q0 tr]) simp
  note other = t [THEN conjunct2, THEN conjunct2, THEN conjunct2, THEN conjunct2,
      rule_format, OF l1,
      THEN conjunct2, THEN conjunct2, rule_format,
      of "PStr ''Fund X''" "PStr ''2024-01-15T00:00:00''" "PStr ''D1''"
         "PStr ''2024-01-15T00:00:00''" "PStr ''12345678000199''" "PStr ''D1''"]
  have second:
    "dict_get (?out ! 1) ''dataUltimoArquivamento'' = PStr ''2024-01-15T00:00:00'' \<and>
     dict_get (?out ! 1) ''idRedis'' = PStr ''12345678000199'' \<and>
     dict_get (?out ! 1) ''externalId'' = PStr ''D1'' \<and>
     dict_get (?out ! 1) ''validado''
       = PBool (query_mziq numeric_id_services 1 (PStr ''Fund X'') \<noteq> PNone \<and>
                query_mziq numeric_id_services 1 (PStr ''Fund X'') \<noteq> PStr '''' \<and>
                query_mziq numeric_id_services 1 (PStr ''Fund X'')
                  = PStr (normalize_cnpj (dict_get (?T ! 1) ''CNPJ'')))"
  proof (rule other)
    show "(1::nat) \<noteq> 0"
      by simp
    show "query_fundsnet numeric_id_services 1 (dict_get (?T ! 1) ''CNPJ'')
            = [PStr ''Fund X'', PStr ''2024-01-15T00:00:00'', PStr ''D1''] \<and>
          truthy (PStr ''Fund X'') \<and>
          store_value Str_dtype (PStr ''2024-01-15T00:00:00'')
            = Inr (PStr ''2024-01-15T00:00:00'') \<and>
          store_value Str_dtype
            (if truthy (query_mziq numeric_id_services 1 (PStr ''Fund X''))
             then query_mziq numeric_id_services 1 (PStr ''Fund X'') else PStr '''')
            = Inr (PStr ''12345678000199'') \<and>
          store_value Str_dtype (if truthy (PStr ''D1'') then PStr ''D1'' else PStr '''')
            = Inr (PStr ''D1'')"
      using q1 by (simp add: numeric_query_mziq)
  qed
  from r len first kept unset second show ?thesis
    by (simp add: numeric_query_mziq scenario_cnpj scenario_normalized)
qed

subsection \<open>The identifier normalizer\<close>

text \<open>
  C7. \<open>normalize_cnpj\<close> has no error exit. An absent value (\<open>None\<close>, a blank cell,
  the empty string) gives the empty string. A string gives itself without the characters
  \<open>.\<close>, \<open>/\<close> and \<open>-\<close>, the others in their order; so a string of digits and these three
  characters gives its digits, in their order.
\<close>

theorem normalize_cnpj_strips_punctuation:
  "normalize_cnpj PNone = '''' \<and> normalize_cnpj PNaN = '''' \<and>
   normalize_cnpj (PStr '''') = '''' \<and>
   normalize_cnpj (PStr s) = filter (\<lambda>c. c \<notin> punct) s \<and>
   (set s \<subseteq> digit_chars \<union> punct \<longrightarrow>
      normalize_cnpj (PStr s) = filter (\<lambda>c. c \<in> digit_chars) s \<and>
      set (normalize_cnpj (PStr s)) \<subseteq> digit_chars)"
proof -
  have absent: "normalize_cnpj PNone = ''''" "normalize_cnpj PNaN = ''''"
    "normalize_cnpj (PStr '''') = ''''"
    by (simp_all add: normalize_cnpj_filter)
  have disj: "digit_chars \<inter> punct = {}"
    by (simp add: digit_chars_def punct_def)
  have digits: "filter (\<lambda>c. c \<notin> punct) s = filter (\<lambda>c. c \<in> digit_chars) s"
    if "set s \<subseteq> digit_chars \<union> punct"
  proof (rule filter_cong [OF refl])
    fix c assume "c \<in> set s"
    with that have "c \<in> digit_chars \<union> punct" by blast
    with disj show "(c \<notin> punct) = (c \<in> digit_chars)" by blast
  qed
  show ?thesis
    using absent digits by (auto simp: normalize_cnpj_PStr)
qed

theorem normalize_cnpj_strips_punctuation_witness:
  "set ''12.345.678/0001-99'' \<subseteq> digit_chars \<union> punct \<and>
   normalize_cnpj (PStr ''12.345.678/0001-99'') = ''12345678000199''"
proof -
  have h: "set ''12.345.678/0001-99'' \<subseteq> digit_chars \<union> punct"
    by (simp add: digit_chars_def punct_def)
  with normalize_cnpj_strips_punctuation [of "''12.345.678/0001-99''"]
  have "normalize_cnpj (PStr ''12.345.678/0001-99'')
          = filter (\<lambda>c. c \<in> digit_chars) ''12.345.678/0001-99''"
    by blast
  with h show ?thesis
    by (simp add: digit_chars_def)
qed

text \<open>
  C8. Normalizing is idempotent: for every value, normalizing the result of
  \<open>normalize_cnpj\<close> gives that result again.
\<close>

theorem normalize_cnpj_idempotent:
  "normalize_cnpj (PStr (normalize_cnpj v)) = normalize_cnpj v"
proof (cases "\<not> truthy v \<or> isna v")
  case True
  then have "normalize_cnpj v = ''''"
    by (simp add: normalize_cnpj_filter)
  then show ?thesis
    by (simp only: normalize_cnpj_PStr filter.simps)
next
  case False
  then have "normalize_cnpj v = filter (\<lambda>c. c \<notin> punct) (py_str v)"
    by (simp add: normalize_cnpj_filter)
  then show ?thesis
    by (simp only: normalize_cnpj_PStr filter_filter) simp
qed

subsection \<open>Frame and absent values\<close>

text \<open>
  C9. In every row, a column other than the four derived ones holds after
  \<open>process_data\<close> what it held before (and is absent if it was absent).
\<close>

theorem other_columns_unchanged:
  assumes "i < length tbl" and "c \<notin> derived_columns"
  shows "map_of (process_table dt sv tbl ! i) c = map_of (tbl ! i) c"
  using assms by (simp add: process_table_nth map_of_row_after map_of_default_cells)

theorem other_columns_unchanged_witness:
  "''Nome'' \<notin> derived_columns \<and>
   map_of (process_table Str_dtype scenario_services [scenario_row] ! 0) ''Nome''
     = Some (PStr ''Fund X FII'')"
proof -
  have h: "''Nome'' \<notin> derived_columns"
    by (simp add: derived_columns_def)
  from other_columns_unchanged [of 0 "[scenario_row]" "''Nome''" Str_dtype scenario_services,
      OF _ h]
  show ?thesis
    using h by (simp add: scenario_row_def)
qed

text \<open>
  C10. In a row whose fund the registry names, line 120 assigns the delivery date with
  no guard: the cell holds whatever the column makes of the value, which with \<open>object\<close>
  columns is the value itself. An absent date (\<open>None\<close>) is therefore stored as an absent
  value, \<open>None\<close> in an \<open>object\<close> column and \<open>nan\<close> in a \<open>str\<close> column, never as the
  empty string. The document identifier and the identity service's answer are assigned
  behind a guard: when one of them is absent (or otherwise false), its cell holds the
  empty string.
\<close>

theorem delivery_date_stored_unguarded:
  assumes "i < length tbl"
    and "query_fundsnet sv i (dict_get (tbl ! i) ''CNPJ'')
           = [fund_name, last_delivery_date, external_id]"
    and "truthy fund_name"
  shows "(\<forall>v. store_value dt last_delivery_date = Inr v \<longrightarrow>
            dict_get (process_table dt sv tbl ! i) ''dataUltimoArquivamento'' = v) \<and>
         (dt = Object_dtype \<longrightarrow>
            dict_get (process_table dt sv tbl ! i) ''dataUltimoArquivamento''
              = last_delivery_date) \<and>
         (last_delivery_date = PNone \<longrightarrow>
            dict_get (process_table dt sv tbl ! i) ''dataUltimoArquivamento''
              = (case dt of Object_dtype \<Rightarrow> PNone | Str_dtype \<Rightarrow> PNaN) \<and>
            isna (dict_get (process_table dt sv tbl ! i) ''dataUltimoArquivamento'') \<and>
            dict_get (process_table dt sv tbl ! i) ''dataUltimoArquivamento'' \<noteq> PStr '''') \<and>
         (\<not> truthy external_id \<longrightarrow>
            dict_get (process_table dt sv tbl ! i) ''externalId'' = PStr '''') \<and>
         (\<not> truthy (query_mziq sv i fund_name) \<longrightarrow>
            dict_get (process_table dt sv tbl ! i) ''idRedis'' = PStr '''')"
proof -
  note cells = process_table_named_cells [OF assms, of dt]
  have date: "dict_get (process_table dt sv tbl ! i) ''dataUltimoArquivamento'' = v"
    if "store_value dt last_delivery_date = Inr v" for v
    using that by (simp only: cells(1) sum.case)
  have obj: "dict_get (process_table dt sv tbl ! i) ''dataUltimoArquivamento''
               = last_delivery_date" if "dt = Object_dtype"
    using that by (intro date) simp
  have none: "dict_get (process_table dt sv tbl ! i) ''dataUltimoArquivamento''
                = (case dt of Object_dtype \<Rightarrow> PNone | Str_dtype \<Rightarrow> PNaN)"
    if "last_delivery_date = PNone"
    using that by (intro date) (simp add: store_value_PNone)
  have ext: "dict_get (process_table dt sv tbl ! i) ''externalId'' = PStr ''''"
    if "\<not> truthy external_id"
    using that by (simp add: cells(3) store_value_PStr)
  have red: "dict_get (process_table dt sv tbl ! i) ''idRedis'' = PStr ''''"
    if "\<not> truthy (query_mziq sv i fund_name)"
    using that by (simp add: cells(2) store_value_PStr)
  show ?thesis
    using date obj none ext red by (cases dt) simp_all
qed

theorem delivery_date_stored_unguarded_witness:
  "query_fundsnet name_only_services 0 (dict_get ([scenario_row] ! 0) ''CNPJ'')
     = [PStr ''Fund X'', PNone, PNone] \<and>
   query_mziq name_only_services 0 (PStr ''Fund X'') = PNone \<and>
   dict_get (process_table Object_dtype name_only_services [scenario_row] ! 0)
     ''dataUltimoArquivamento'' = PNone \<and>
   dict_get (process_table Str_dtype name_only_services [scenario_row] ! 0)
     ''dataUltimoArquivamento'' = PNaN \<and>
   dict_get (process_table Str_dtype name_only_services [scenario_row] ! 0) ''externalId''
     = PStr '''' \<and>
   dict_get (process_table Str_dtype name_only_services [scenario_row] ! 0) ''idRedis''
     = PStr ''''"
proof -
  have q: "query_fundsnet name_only_services 0 (dict_get ([scenario_row] ! 0) ''CNPJ'')
             = [PStr ''Fund X'', PNone, PNone]"
    by (simp add: scenario_cnpj name_only_query_fundsnet)
  have tr: "truthy (PStr ''Fund X'')"
    by simp
  have i: "0 < length [scenario_row]"
    by simp
  have m: "query_mziq name_only_services 0 (PStr ''Fund X'') = PNone"
    by (rule name_only_query_mziq)
  from delivery_date_stored_unguarded [OF i q tr, of Object_dtype]
  have a: "dict_get (process_table Object_dtype name_only_services [scenario_row] ! 0)
             ''dataUltimoArquivamento'' = PNone"
    by simp
  from delivery_date_stored_unguarded [OF i q tr, of Str_dtype]
  have b: "dict_get (process_table Str_dtype name_only_services [scenario_row] ! 0)
             ''dataUltimoArquivamento'' = PNaN \<and>
           dict_get (process_table Str_dtype name_only_services [scenario_row] ! 0)
             ''externalId'' = PStr '''' \<and>
           dict_get (process_table Str_dtype name_only_services [scenario_row] ! 0)
             ''idRedis'' = PStr ''''"
    by (simp add: m)
  from q m a b show ?thesis
    by simp
qed

end
